theory Spec2Isabelle
  imports Complex_Main
begin

section \<open>Values of the host language\<close>

text \<open>
  A TypeScript \<^verbatim>\<open>number\<close> is an IEEE double. The constructs below only compare numbers
  and store them, so a number is modelled by what a comparison can see of it: not-a-number,
  the two infinities, or a finite value (every finite double is a rational; the two zeros
  compare equal and are one value here).
\<close>

datatype number = NaN | NegInfinity | Finite rat | Infinity

text \<open>The operator \<^verbatim>\<open>a < b\<close> on numbers: false as soon as one side is not-a-number.\<close>

fun number_less :: "number \<Rightarrow> number \<Rightarrow> bool" where
  "number_less NaN b = False"
| "number_less a NaN = False"
| "number_less NegInfinity NegInfinity = False"
| "number_less NegInfinity b = True"
| "number_less (Finite x) (Finite y) = (x < y)"
| "number_less (Finite x) Infinity = True"
| "number_less (Finite x) NegInfinity = False"
| "number_less Infinity b = False"

text \<open>The operator \<^verbatim>\<open>a > b\<close> is \<^verbatim>\<open>b < a\<close>.\<close>

definition number_greater :: "number \<Rightarrow> number \<Rightarrow> bool" where
  "number_greater a b = number_less b a"

text \<open>
  An object of type \<^verbatim>\<open>Partial<T>\<close> is a finite map from property names to values: a
  property that was never assigned reads as \<^verbatim>\<open>undefined\<close>, here \<open>None\<close>. Objects are
  passed by reference, so they live in a store, addressed by reference.
\<close>

type_synonym addr = nat
type_synonym 'v obj = "string \<rightharpoonup> 'v"
type_synonym 'v heap = "addr \<Rightarrow> 'v obj"

definition empty_heap :: "'v heap" where
  "empty_heap = (\<lambda>a. Map.empty)"

text \<open>
  \<^verbatim>\<open>throw new Error(`... ${bound}`)\<close>: the error carries the literal part of its message
  and the number interpolated after it (the decimal rendering of the number is not
  modelled).
\<close>

datatype error = Error string number

text \<open>
  A method either returns a value or throws, and in both cases leaves a store behind.
\<close>

type_synonym ('a, 'v) outcome = "(error + 'a) \<times> 'v heap"

section \<open>type.ts: the class Construct\<close>

text \<open>
  The callback handed to the setter has type \<^verbatim>\<open>(constraints) => void\<close>: it receives a
  reference to a constraints object and assigns to it in place. The setter has type
  \<^verbatim>\<open>(callback) => void\<close>: it is supplied by whoever creates the construct, and decides
  on which object, if any, the callback runs. Neither returns a value; the setter is
  taken to return normally.
\<close>

type_synonym 'v callback = "addr \<Rightarrow> 'v heap \<Rightarrow> 'v heap"

record ('cv, 'rv) Construct =
  setter :: "'cv callback \<Rightarrow> 'cv heap \<Rightarrow> 'cv heap"
  rules :: "'rv obj"

text \<open>
  The constructor: \<^verbatim>\<open>this.setter = setter; this.rules = rules ?? {}\<close>. The optional
  argument \<^verbatim>\<open>rules\<close> is \<open>None\<close> when it is left out.
\<close>

definition Construct_new ::
  "('cv callback \<Rightarrow> 'cv heap \<Rightarrow> 'cv heap) \<Rightarrow> 'rv obj option \<Rightarrow> ('cv, 'rv) Construct" where
  "Construct_new setter' rules' =
     \<lparr> setter = setter',
       rules = (case rules' of None \<Rightarrow> Map.empty | Some r \<Rightarrow> r) \<rparr>"

text \<open>The assignment \<^verbatim>\<open>constraints.key = v\<close> on the object that \<open>constraints\<close> refers to.\<close>

definition assign :: "string \<Rightarrow> 'v \<Rightarrow> 'v callback" where
  "assign key v constraints h = h(constraints := (h constraints)(key \<mapsto> v))"

text \<open>
  Modelled from the spec: the setter that the creator of a construct supplies. No creator
  of a construct is part of the repository; the specification says that the setter merges
  each constraint into one accumulating constraint map. This setter runs the callback on
  the constraints object at a fixed reference.
\<close>

definition accumulating_setter :: "addr \<Rightarrow> 'v callback \<Rightarrow> 'v heap \<Rightarrow> 'v heap" where
  "accumulating_setter target callback h = callback target h"

text \<open>
  A chained call \<^verbatim>\<open>x.m(...).n(...)\<close>: the second method runs on the value the first one
  returned, in the store it left, unless the first one threw.
\<close>

definition chain ::
  "('a, 'v) outcome \<Rightarrow> ('a \<Rightarrow> 'v heap \<Rightarrow> ('b, 'v) outcome) \<Rightarrow> ('b, 'v) outcome" where
  "chain r m = (case r of (Inl e, h) \<Rightarrow> (Inl e, h) | (Inr x, h) \<Rightarrow> m x h)"

section \<open>constructs/range.ts: the class RangeConstruct\<close>

type_synonym RangeConstruct = "(number, number) Construct"

definition RangeConstruct_min ::
  "RangeConstruct \<Rightarrow> number \<Rightarrow> number heap \<Rightarrow> (RangeConstruct, number) outcome" where
  "RangeConstruct_min this min' h =
     (case rules this ''min'' of
        Some bound \<Rightarrow>
          if number_less min' bound
          then (Inl (Error ''Minimum value must be greater than or equal to '' bound), h)
          else (Inr this, setter this (assign ''min'' min') h)
      | None \<Rightarrow> (Inr this, setter this (assign ''min'' min') h))"

definition RangeConstruct_max ::
  "RangeConstruct \<Rightarrow> number \<Rightarrow> number heap \<Rightarrow> (RangeConstruct, number) outcome" where
  "RangeConstruct_max this max' h =
     (case rules this ''max'' of
        Some bound \<Rightarrow>
          if number_greater max' bound
          then (Inl (Error ''Maximum value must be less than or equal to '' bound), h)
          else (Inr this, setter this (assign ''max'' max') h)
      | None \<Rightarrow> (Inr this, setter this (assign ''max'' max') h))"

text \<open>
  \<^verbatim>\<open>this.min(min); this.max(max); return this\<close>: both calls are made on \<open>this\<close>, their
  results are dropped, and an exception of either leaves the method at once.
\<close>

definition RangeConstruct_between ::
  "RangeConstruct \<Rightarrow> number \<Rightarrow> number \<Rightarrow> number heap \<Rightarrow> (RangeConstruct, number) outcome" where
  "RangeConstruct_between this min' max' h =
     (case RangeConstruct_min this min' h of
        (Inl e, h1) \<Rightarrow> (Inl e, h1)
      | (Inr r1, h1) \<Rightarrow>
          (case RangeConstruct_max this max' h1 of
             (Inl e, h2) \<Rightarrow> (Inl e, h2)
           | (Inr r2, h2) \<Rightarrow> (Inr this, h2)))"

text \<open>
  The specification's wording of \<open>between\<close>: the chained calls \<^verbatim>\<open>.min(a).max(b)\<close>, the
  second one on the builder that the first one returned.
\<close>

definition min_then_max ::
  "RangeConstruct \<Rightarrow> number \<Rightarrow> number \<Rightarrow> number heap \<Rightarrow> (RangeConstruct, number) outcome" where
  "min_then_max this a b h =
     chain (RangeConstruct_min this a h) (\<lambda>builder. RangeConstruct_max builder b)"

section \<open>constructs/even-odd.ts: the class EvenOddConstruct\<close>

type_synonym 'rv EvenOddConstruct = "(bool, 'rv) Construct"

definition EvenOddConstruct_even ::
  "'rv EvenOddConstruct \<Rightarrow> bool heap \<Rightarrow> ('rv EvenOddConstruct, bool) outcome" where
  "EvenOddConstruct_even this h = (Inr this, setter this (assign ''even'' True) h)"

definition EvenOddConstruct_odd ::
  "'rv EvenOddConstruct \<Rightarrow> bool heap \<Rightarrow> ('rv EvenOddConstruct, bool) outcome" where
  "EvenOddConstruct_odd this h = (Inr this, setter this (assign ''even'' False) h)"

text \<open>A chain of calls \<^verbatim>\<open>.even()\<close> and \<^verbatim>\<open>.odd()\<close>, each on the builder the one before returned.\<close>

datatype parity_call = Call_even | Call_odd

fun parity_calls ::
  "'rv EvenOddConstruct \<Rightarrow> parity_call list \<Rightarrow> bool heap \<Rightarrow> ('rv EvenOddConstruct, bool) outcome" where
  "parity_calls this [] h = (Inr this, h)"
| "parity_calls this (Call_even # cs) h =
     chain (EvenOddConstruct_even this h) (\<lambda>builder. parity_calls builder cs)"
| "parity_calls this (Call_odd # cs) h =
     chain (EvenOddConstruct_odd this h) (\<lambda>builder. parity_calls builder cs)"

section \<open>Concrete rules and builders\<close>

text \<open>
  The rule objects and builders that the examples below are evaluated on. Each builder
  accumulates into the constraints object at reference 0.
\<close>

definition rule_10_50 :: "number obj" where
  "rule_10_50 = [''min'' \<mapsto> Finite 10, ''max'' \<mapsto> Finite 50]"

definition rule_max_5 :: "number obj" where
  "rule_max_5 = [''max'' \<mapsto> Finite 5]"

definition range_10_50 :: RangeConstruct where
  "range_10_50 = Construct_new (accumulating_setter 0) (Some rule_10_50)"

definition range_max_5 :: RangeConstruct where
  "range_max_5 = Construct_new (accumulating_setter 0) (Some rule_max_5)"

definition range_unruled :: RangeConstruct where
  "range_unruled = Construct_new (accumulating_setter 0) None"

definition parity_unruled :: "unit EvenOddConstruct" where
  "parity_unruled = Construct_new (accumulating_setter 0) None"

section \<open>Basic facts\<close>

lemma number_less_irrefl: "\<not> number_less a a"
  by (cases a) simp_all

lemma accumulating_assign:
  "accumulating_setter a (assign key v) h = h(a := (h a)(key \<mapsto> v))"
  unfolding accumulating_setter_def assign_def by (rule refl)

subsection \<open>What each method does, case by case\<close>

lemma RangeConstruct_min_throws:
  assumes "rules this ''min'' = Some bound" and "number_less v bound"
  shows "RangeConstruct_min this v h
           = (Inl (Error ''Minimum value must be greater than or equal to '' bound), h)"
  using assms by (simp add: RangeConstruct_min_def)

lemma RangeConstruct_min_returns:
  assumes "\<not> (\<exists>bound. rules this ''min'' = Some bound \<and> number_less v bound)"
  shows "RangeConstruct_min this v h = (Inr this, setter this (assign ''min'' v) h)"
  using assms by (simp add: RangeConstruct_min_def split: option.splits)

lemma RangeConstruct_max_throws:
  assumes "rules this ''max'' = Some bound" and "number_greater v bound"
  shows "RangeConstruct_max this v h
           = (Inl (Error ''Maximum value must be less than or equal to '' bound), h)"
  using assms by (simp add: RangeConstruct_max_def)

lemma RangeConstruct_max_returns:
  assumes "\<not> (\<exists>bound. rules this ''max'' = Some bound \<and> number_greater v bound)"
  shows "RangeConstruct_max this v h = (Inr this, setter this (assign ''max'' v) h)"
  using assms by (simp add: RangeConstruct_max_def split: option.splits)

lemma RangeConstruct_min_cases:
  obtains (throws) bound where "rules this ''min'' = Some bound" "number_less v bound"
      "RangeConstruct_min this v h
         = (Inl (Error ''Minimum value must be greater than or equal to '' bound), h)"
  | (returns) "\<not> (\<exists>bound. rules this ''min'' = Some bound \<and> number_less v bound)"
      "RangeConstruct_min this v h = (Inr this, setter this (assign ''min'' v) h)"
  using RangeConstruct_min_throws RangeConstruct_min_returns by blast

lemma RangeConstruct_max_cases:
  obtains (throws) bound where "rules this ''max'' = Some bound" "number_greater v bound"
      "RangeConstruct_max this v h
         = (Inl (Error ''Maximum value must be less than or equal to '' bound), h)"
  | (returns) "\<not> (\<exists>bound. rules this ''max'' = Some bound \<and> number_greater v bound)"
      "RangeConstruct_max this v h = (Inr this, setter this (assign ''max'' v) h)"
  using RangeConstruct_max_throws RangeConstruct_max_returns by blast

lemma RangeConstruct_between_min_throws:
  assumes "rules this ''min'' = Some bound" and "number_less a bound"
  shows "RangeConstruct_between this a b h
           = (Inl (Error ''Minimum value must be greater than or equal to '' bound), h)"
  by (simp add: RangeConstruct_between_def RangeConstruct_min_throws [OF assms])

lemma RangeConstruct_between_max_throws:
  assumes "\<not> (\<exists>bound. rules this ''min'' = Some bound \<and> number_less a bound)"
    and "rules this ''max'' = Some bound" and "number_greater b bound"
  shows "RangeConstruct_between this a b h
           = (Inl (Error ''Maximum value must be less than or equal to '' bound),
              setter this (assign ''min'' a) h)"
  by (simp add: RangeConstruct_between_def RangeConstruct_min_returns [OF assms(1)]
      RangeConstruct_max_throws [OF assms(2,3)])

lemma RangeConstruct_between_returns:
  assumes "\<not> (\<exists>bound. rules this ''min'' = Some bound \<and> number_less a bound)"
    and "\<not> (\<exists>bound. rules this ''max'' = Some bound \<and> number_greater b bound)"
  shows "RangeConstruct_between this a b h
           = (Inr this, setter this (assign ''max'' b) (setter this (assign ''min'' a) h))"
  by (simp add: RangeConstruct_between_def RangeConstruct_min_returns [OF assms(1)]
      RangeConstruct_max_returns [OF assms(2)])

lemma rules_Construct_new_None: "rules (Construct_new s None) = Map.empty"
  by (simp add: Construct_new_def)

lemma setter_Construct_new: "setter (Construct_new s r) = s"
  by (simp add: Construct_new_def)

lemma rules_range_10_50:
  "rules range_10_50 ''min'' = Some (Finite 10)" "rules range_10_50 ''max'' = Some (Finite 50)"
  by (simp_all add: range_10_50_def Construct_new_def rule_10_50_def)

lemma rules_range_max_5:
  "rules range_max_5 ''min'' = None" "rules range_max_5 ''max'' = Some (Finite 5)"
  by (simp_all add: range_max_5_def Construct_new_def rule_max_5_def)

lemma setter_examples:
  "setter range_10_50 = accumulating_setter 0"
  "setter range_max_5 = accumulating_setter 0"
  "setter range_unruled = accumulating_setter 0"
  "setter parity_unruled = accumulating_setter 0"
  by (simp_all add: range_10_50_def range_max_5_def range_unruled_def parity_unruled_def
      Construct_new_def)

lemma empty_heap_apply: "empty_heap a = Map.empty"
  by (simp add: empty_heap_def)

subsection \<open>Chains of even and odd calls\<close>

lemma parity_calls_Cons:
  "parity_calls this (c # cs) h
     = parity_calls this cs (setter this (assign ''even'' (c = Call_even)) h)"
  by (cases c) (simp_all add: chain_def EvenOddConstruct_even_def EvenOddConstruct_odd_def)

lemma parity_calls_returns_this: "fst (parity_calls this cs h) = Inr this"
  by (induction cs arbitrary: h) (simp_all add: parity_calls_Cons)

lemma parity_calls_last:
  assumes "setter this = accumulating_setter a"
  shows "snd (parity_calls this (c # cs) h) a ''even'' = Some (last (c # cs) = Call_even)"
proof (induction cs arbitrary: c h)
  case Nil
  show ?case
    by (simp add: parity_calls_Cons assms accumulating_assign)
next
  case (Cons d ds)
  have "parity_calls this (c # d # ds) h
          = parity_calls this (d # ds) (setter this (assign ''even'' (c = Call_even)) h)"
    by (rule parity_calls_Cons)
  with Cons.IH show ?case
    by simp
qed

section \<open>The range construct under the rule min 10, max 50\<close>

text \<open>
  C1. A range construct with the fixed rule \<open>{min: 10, max: 50}\<close>, whose setter accumulates
  into a constraints object that starts empty: \<open>.min(5)\<close> throws the error of the minimum
  and leaves the object empty, and \<open>.min(20).max(40)\<close> returns the builder and leaves the
  constraints object equal to \<open>{min: 20, max: 40}\<close>, every other object of the store
  untouched.
\<close>

theorem range_rule_10_50_example:
  "RangeConstruct_min (Construct_new (accumulating_setter a) (Some rule_10_50))
          (Finite 5) (h(a := Map.empty))
     = (Inl (Error ''Minimum value must be greater than or equal to '' (Finite 10)),
        h(a := Map.empty))
   \<and> chain (RangeConstruct_min (Construct_new (accumulating_setter a) (Some rule_10_50))
              (Finite 20) (h(a := Map.empty)))
           (\<lambda>builder. RangeConstruct_max builder (Finite 40))
     = (Inr (Construct_new (accumulating_setter a) (Some rule_10_50)),
        h(a := [''min'' \<mapsto> Finite 20, ''max'' \<mapsto> Finite 40]))"
  by (simp add: RangeConstruct_min_def RangeConstruct_max_def Construct_new_def rule_10_50_def
      chain_def number_greater_def accumulating_assign)

section \<open>Which bound a call is checked against\<close>

text \<open>
  C2, as stated, fails: \<open>min\<close> reads only the rule's \<open>min\<close> and \<open>max\<close> only the rule's
  \<open>max\<close>. On a builder whose rule fixes \<open>max: 5\<close> and nothing else, \<open>.min(10)\<close>
  returns the builder and merges \<open>{min: 10}\<close>, although 10 is above the fixed maximum.
\<close>

theorem min_ignores_fixed_max_counterexample:
  "number_greater (Finite 10) (Finite 5)
   \<and> rules range_max_5 ''max'' = Some (Finite 5)
   \<and> RangeConstruct_min range_max_5 (Finite 10) empty_heap
       = (Inr range_max_5, empty_heap(0 := [''min'' \<mapsto> Finite 10]))"
  by (simp add: RangeConstruct_min_def rules_range_max_5 setter_examples accumulating_assign
      empty_heap_apply number_greater_def)

text \<open>
  C2, amended. \<open>.min(v)\<close> throws, at once and with the store as it was, when the rule
  has a \<open>min\<close> and \<open>v\<close> is below it; in every other case it returns the builder
  after one call of the setter with the assignment of \<open>min\<close>. \<open>.max(w)\<close> throws
  when the rule has a \<open>max\<close> and \<open>w\<close> is above it, and otherwise returns the builder
  after one call of the setter with the assignment of \<open>max\<close>. The other bound of the
  rule is never read.
\<close>

theorem range_bound_checked_against_own_rule:
  "(rules this ''min'' = Some lo \<and> number_less v lo \<longrightarrow>
      RangeConstruct_min this v h
        = (Inl (Error ''Minimum value must be greater than or equal to '' lo), h))
   \<and> (\<not> (\<exists>bound. rules this ''min'' = Some bound \<and> number_less v bound) \<longrightarrow>
      RangeConstruct_min this v h = (Inr this, setter this (assign ''min'' v) h))
   \<and> (rules this ''max'' = Some hi \<and> number_greater w hi \<longrightarrow>
      RangeConstruct_max this w h
        = (Inl (Error ''Maximum value must be less than or equal to '' hi), h))
   \<and> (\<not> (\<exists>bound. rules this ''max'' = Some bound \<and> number_greater w bound) \<longrightarrow>
      RangeConstruct_max this w h = (Inr this, setter this (assign ''max'' w) h))"
  using RangeConstruct_min_throws RangeConstruct_min_returns
    RangeConstruct_max_throws RangeConstruct_max_returns by blast

theorem range_bound_checked_against_own_rule_witness:
  "RangeConstruct_min range_10_50 (Finite 5) empty_heap
     = (Inl (Error ''Minimum value must be greater than or equal to '' (Finite 10)), empty_heap)
   \<and> RangeConstruct_max range_10_50 (Finite 60) empty_heap
     = (Inl (Error ''Maximum value must be less than or equal to '' (Finite 50)), empty_heap)
   \<and> RangeConstruct_min range_10_50 (Finite 20) empty_heap
     = (Inr range_10_50, empty_heap(0 := [''min'' \<mapsto> Finite 20]))
   \<and> RangeConstruct_max range_10_50 (Finite 40) empty_heap
     = (Inr range_10_50, empty_heap(0 := [''max'' \<mapsto> Finite 40]))"
  using range_bound_checked_against_own_rule
      [of range_10_50 "Finite 10" "Finite 5" empty_heap "Finite 50" "Finite 60"]
    range_bound_checked_against_own_rule
      [of range_10_50 "Finite 10" "Finite 20" empty_heap "Finite 50" "Finite 40"]
  by (simp add: rules_range_10_50 setter_examples accumulating_assign empty_heap_apply
      number_greater_def)

section \<open>Builder calls and the shared constraints object\<close>

text \<open>
  C3, as stated, fails: a call does not leave the constraints seen before it in place. On
  a builder that accumulates into the object at reference 0, the object has no \<open>min\<close>
  before \<open>.min(20)\<close>; the call returns the builder it was called on, and the same
  object then holds \<open>min: 20\<close>.
\<close>

theorem builder_call_overwrites_shared_object_counterexample:
  "empty_heap 0 ''min'' = (None :: number option)
   \<and> fst (RangeConstruct_min range_unruled (Finite 20) empty_heap) = Inr range_unruled
   \<and> snd (RangeConstruct_min range_unruled (Finite 20) empty_heap) 0 ''min'' = Some (Finite 20)"
  by (simp add: RangeConstruct_min_def range_unruled_def Construct_new_def
      accumulating_assign empty_heap_apply)

text \<open>
  C3, amended. Every call of \<open>min\<close>, \<open>max\<close> and \<open>between\<close> that returns, and every
  call of \<open>even\<close> and \<open>odd\<close>, returns the builder it was called on, and changes the
  store by calling the builder's setter and in no other way (once per assignment, \<open>min\<close>
  before \<open>max\<close> in \<open>between\<close>). An accumulating setter overwrites the property in
  the one constraints object it refers to and leaves every other object alone: the
  original builder observes the constraints as they are after the call.
\<close>

theorem builder_calls_return_this_and_go_through_setter:
  "(RangeConstruct_min this v h = (Inr b1, h1) \<longrightarrow>
      b1 = this \<and> h1 = setter this (assign ''min'' v) h)
   \<and> (RangeConstruct_max this w h = (Inr b2, h2) \<longrightarrow>
      b2 = this \<and> h2 = setter this (assign ''max'' w) h)
   \<and> (RangeConstruct_between this v w h = (Inr b3, h3) \<longrightarrow>
      b3 = this \<and> h3 = setter this (assign ''max'' w) (setter this (assign ''min'' v) h))
   \<and> EvenOddConstruct_even parity g = (Inr parity, setter parity (assign ''even'' True) g)
   \<and> EvenOddConstruct_odd parity g = (Inr parity, setter parity (assign ''even'' False) g)
   \<and> accumulating_setter a (assign key x) s = s(a := (s a)(key \<mapsto> x))"
proof -
  have min: "b1 = this \<and> h1 = setter this (assign ''min'' v) h"
    if "RangeConstruct_min this v h = (Inr b1, h1)"
    using that by (cases this v h rule: RangeConstruct_min_cases) auto
  have max: "b2 = this \<and> h2 = setter this (assign ''max'' w) h"
    if "RangeConstruct_max this w h = (Inr b2, h2)"
    using that by (cases this w h rule: RangeConstruct_max_cases) auto
  have between:
    "b3 = this \<and> h3 = setter this (assign ''max'' w) (setter this (assign ''min'' v) h)"
    if "RangeConstruct_between this v w h = (Inr b3, h3)"
  proof (cases this v h rule: RangeConstruct_min_cases)
    case (throws bound)
    with that show ?thesis
      by (simp add: RangeConstruct_between_def)
  next
    case returns
    show ?thesis
    proof (cases this w "setter this (assign ''min'' v) h" rule: RangeConstruct_max_cases)
      case (throws bound)
      with that returns show ?thesis
        by (simp add: RangeConstruct_between_def)
    next
      case returns': returns
      with that returns show ?thesis
        by (auto simp add: RangeConstruct_between_def)
    qed
  qed
  show ?thesis
    using min max between
    by (simp add: EvenOddConstruct_even_def EvenOddConstruct_odd_def accumulating_assign)
qed

theorem builder_calls_return_this_and_go_through_setter_witness:
  "RangeConstruct_min range_10_50 (Finite 20) empty_heap
     = (Inr range_10_50, empty_heap(0 := [''min'' \<mapsto> Finite 20]))
   \<and> RangeConstruct_max range_10_50 (Finite 40) empty_heap
     = (Inr range_10_50, empty_heap(0 := [''max'' \<mapsto> Finite 40]))
   \<and> RangeConstruct_between range_10_50 (Finite 20) (Finite 40) empty_heap
     = (Inr range_10_50, empty_heap(0 := [''min'' \<mapsto> Finite 20, ''max'' \<mapsto> Finite 40]))"
proof -
  obtain b1 h1 where r1: "RangeConstruct_min range_10_50 (Finite 20) empty_heap = (Inr b1, h1)"
    by (simp add: RangeConstruct_min_def rules_range_10_50)
  obtain b2 h2 where r2: "RangeConstruct_max range_10_50 (Finite 40) empty_heap = (Inr b2, h2)"
    by (simp add: RangeConstruct_max_def rules_range_10_50 number_greater_def)
  obtain b3 h3 where
    r3: "RangeConstruct_between range_10_50 (Finite 20) (Finite 40) empty_heap = (Inr b3, h3)"
    by (simp add: RangeConstruct_between_def RangeConstruct_min_def RangeConstruct_max_def
        rules_range_10_50 number_greater_def)
  from builder_calls_return_this_and_go_through_setter
    [of range_10_50 "Finite 20" empty_heap b1 h1 "Finite 40" b2 h2 b3 h3]
    r1 r2 r3
  show ?thesis
    by (auto simp add: setter_examples accumulating_assign empty_heap_apply)
qed

section \<open>between\<close>

text \<open>
  C4. For every range construct, every store and every pair \<open>(a, b)\<close>, \<open>.between(a, b)\<close>
  and the chained calls \<open>.min(a).max(b)\<close> have the same outcome: the same error or the
  same returned builder, and the same store.
\<close>

theorem between_is_min_then_max:
  "RangeConstruct_between this a b h = min_then_max this a b h"
proof (cases this a h rule: RangeConstruct_min_cases)
  case (throws bound)
  then show ?thesis
    by (simp add: RangeConstruct_between_def min_then_max_def chain_def)
next
  case returns
  show ?thesis
  proof (cases this b "setter this (assign ''min'' a) h" rule: RangeConstruct_max_cases)
    case (throws bound)
    with returns show ?thesis
      by (simp add: RangeConstruct_between_def min_then_max_def chain_def)
  next
    case returns': returns
    with returns show ?thesis
      by (simp add: RangeConstruct_between_def min_then_max_def chain_def)
  qed
qed

text \<open>
  C5, as stated, fails: \<open>between\<close> never compares its two arguments. Under the rule
  \<open>{min: 10, max: 50}\<close>, \<open>.between(40, 20)\<close> returns the builder and leaves the
  constraints \<open>{min: 40, max: 20}\<close>.
\<close>

theorem between_descending_counterexample:
  "number_greater (Finite 40) (Finite 20)
   \<and> RangeConstruct_between range_10_50 (Finite 40) (Finite 20) empty_heap
       = (Inr range_10_50, empty_heap(0 := [''min'' \<mapsto> Finite 40, ''max'' \<mapsto> Finite 20]))"
  by (simp add: RangeConstruct_between_def RangeConstruct_min_def RangeConstruct_max_def
      rules_range_10_50 setter_examples accumulating_assign empty_heap_apply number_greater_def)

text \<open>
  C5, amended. \<open>.between(a, b)\<close> throws exactly when \<open>a\<close> is below the rule's
  \<open>min\<close> or \<open>b\<close> is above the rule's \<open>max\<close>. When \<open>a\<close> is below the rule's
  \<open>min\<close>, the error is the one of the \<open>min\<close> step, it cites the rule's \<open>min\<close>, and the
  store is the one before the call. When \<open>a\<close> passes and \<open>b\<close> is above the rule's
  \<open>max\<close>, the error is the one of the \<open>max\<close> step, it cites the rule's \<open>max\<close>, and
  the store is the one the \<open>min\<close> step left: the setter has been called with the
  assignment of \<open>min\<close>. In every other case, also when \<open>a\<close> is above \<open>b\<close>, the call
  returns the builder after both calls of the setter.
\<close>

theorem between_fails_only_on_rule_bounds:
  "isl (fst (RangeConstruct_between this a b h))
     = ((\<exists>lo. rules this ''min'' = Some lo \<and> number_less a lo)
        \<or> (\<exists>hi. rules this ''max'' = Some hi \<and> number_greater b hi))
   \<and> (rules this ''min'' = Some lo \<and> number_less a lo \<longrightarrow>
      RangeConstruct_between this a b h
        = (Inl (Error ''Minimum value must be greater than or equal to '' lo), h))
   \<and> (\<not> (\<exists>lo. rules this ''min'' = Some lo \<and> number_less a lo)
        \<and> rules this ''max'' = Some hi \<and> number_greater b hi \<longrightarrow>
      RangeConstruct_between this a b h
        = (Inl (Error ''Maximum value must be less than or equal to '' hi),
           setter this (assign ''min'' a) h))
   \<and> (\<not> (\<exists>lo. rules this ''min'' = Some lo \<and> number_less a lo)
        \<and> \<not> (\<exists>hi. rules this ''max'' = Some hi \<and> number_greater b hi) \<longrightarrow>
      RangeConstruct_between this a b h
        = (Inr this, setter this (assign ''max'' b) (setter this (assign ''min'' a) h)))"
proof -
  have fails: "isl (fst (RangeConstruct_between this a b h))
     = ((\<exists>lo. rules this ''min'' = Some lo \<and> number_less a lo)
        \<or> (\<exists>hi. rules this ''max'' = Some hi \<and> number_greater b hi))"
  proof (cases "\<exists>lo. rules this ''min'' = Some lo \<and> number_less a lo")
    case True
    then show ?thesis
      using RangeConstruct_between_min_throws [of this _ a b h] by auto
  next
    case no_min: False
    show ?thesis
    proof (cases "\<exists>hi. rules this ''max'' = Some hi \<and> number_greater b hi")
      case True
      then show ?thesis
        using RangeConstruct_between_max_throws [OF no_min, of _ b h] by auto
    next
      case False
      then show ?thesis
        using no_min RangeConstruct_between_returns [OF no_min False, of h] by simp
    qed
  qed
  have on_min: "RangeConstruct_between this a b h
        = (Inl (Error ''Minimum value must be greater than or equal to '' lo), h)"
    if "rules this ''min'' = Some lo \<and> number_less a lo"
    using that by (simp add: RangeConstruct_between_min_throws)
  have on_max: "RangeConstruct_between this a b h
        = (Inl (Error ''Maximum value must be less than or equal to '' hi),
           setter this (assign ''min'' a) h)"
    if "\<not> (\<exists>lo. rules this ''min'' = Some lo \<and> number_less a lo)
        \<and> rules this ''max'' = Some hi \<and> number_greater b hi"
    using that by (simp add: RangeConstruct_between_max_throws)
  have returns: "RangeConstruct_between this a b h
        = (Inr this, setter this (assign ''max'' b) (setter this (assign ''min'' a) h))"
    if "\<not> (\<exists>lo. rules this ''min'' = Some lo \<and> number_less a lo)
        \<and> \<not> (\<exists>hi. rules this ''max'' = Some hi \<and> number_greater b hi)"
    using that by (simp add: RangeConstruct_between_returns)
  from fails on_min on_max returns show ?thesis
    by blast
qed

theorem between_fails_only_on_rule_bounds_witness:
  "number_less (Finite 5) (Finite 10)
   \<and> RangeConstruct_between range_10_50 (Finite 5) (Finite 60) empty_heap
       = (Inl (Error ''Minimum value must be greater than or equal to '' (Finite 10)),
          empty_heap)
   \<and> number_greater (Finite 60) (Finite 50)
   \<and> isl (fst (RangeConstruct_between range_10_50 (Finite 20) (Finite 60) empty_heap))
   \<and> RangeConstruct_between range_10_50 (Finite 20) (Finite 60) empty_heap
       = (Inl (Error ''Maximum value must be less than or equal to '' (Finite 50)),
          empty_heap(0 := [''min'' \<mapsto> Finite 20]))
   \<and> number_greater (Finite 40) (Finite 20)
   \<and> \<not> isl (fst (RangeConstruct_between range_10_50 (Finite 40) (Finite 20) empty_heap))
   \<and> RangeConstruct_between range_10_50 (Finite 40) (Finite 20) empty_heap
       = (Inr range_10_50,
          empty_heap(0 := [''min'' \<mapsto> Finite 40, ''max'' \<mapsto> Finite 20]))"
  using between_fails_only_on_rule_bounds
      [of range_10_50 "Finite 5" "Finite 60" empty_heap "Finite 10" "Finite 50"]
    between_fails_only_on_rule_bounds
      [of range_10_50 "Finite 20" "Finite 60" empty_heap "Finite 10" "Finite 50"]
    between_fails_only_on_rule_bounds
      [of range_10_50 "Finite 40" "Finite 20" empty_heap "Finite 10" "Finite 50"]
  by (simp add: rules_range_10_50 setter_examples accumulating_assign empty_heap_apply
      number_greater_def)

section \<open>Failed calls\<close>

text \<open>
  C6. For every range construct, whatever its setter does: when \<open>.min(v)\<close> or
  \<open>.max(w)\<close> throws, the store is exactly the store before the call, and the error is
  the violation of the rule's own bound.
\<close>

theorem rule_violation_leaves_store_unchanged:
  "(fst (RangeConstruct_min this v h) = Inl e \<longrightarrow>
      snd (RangeConstruct_min this v h) = h
      \<and> (\<exists>bound. rules this ''min'' = Some bound \<and> number_less v bound
            \<and> e = Error ''Minimum value must be greater than or equal to '' bound))
   \<and> (fst (RangeConstruct_max this w h) = Inl e' \<longrightarrow>
      snd (RangeConstruct_max this w h) = h
      \<and> (\<exists>bound. rules this ''max'' = Some bound \<and> number_greater w bound
            \<and> e' = Error ''Maximum value must be less than or equal to '' bound))"
proof -
  have min: "snd (RangeConstruct_min this v h) = h
      \<and> (\<exists>bound. rules this ''min'' = Some bound \<and> number_less v bound
            \<and> e = Error ''Minimum value must be greater than or equal to '' bound)"
    if "fst (RangeConstruct_min this v h) = Inl e"
    using that by (cases this v h rule: RangeConstruct_min_cases) auto
  have max: "snd (RangeConstruct_max this w h) = h
      \<and> (\<exists>bound. rules this ''max'' = Some bound \<and> number_greater w bound
            \<and> e' = Error ''Maximum value must be less than or equal to '' bound)"
    if "fst (RangeConstruct_max this w h) = Inl e'"
    using that by (cases this w h rule: RangeConstruct_max_cases) auto
  from min max show ?thesis by blast
qed

theorem rule_violation_leaves_store_unchanged_witness:
  "fst (RangeConstruct_min range_10_50 (Finite 5) (empty_heap(0 := [''min'' \<mapsto> Finite 20])))
     = Inl (Error ''Minimum value must be greater than or equal to '' (Finite 10))
   \<and> snd (RangeConstruct_min range_10_50 (Finite 5) (empty_heap(0 := [''min'' \<mapsto> Finite 20])))
     = empty_heap(0 := [''min'' \<mapsto> Finite 20])
   \<and> fst (RangeConstruct_max range_10_50 (Finite 60) (empty_heap(0 := [''min'' \<mapsto> Finite 20])))
     = Inl (Error ''Maximum value must be less than or equal to '' (Finite 50))
   \<and> snd (RangeConstruct_max range_10_50 (Finite 60) (empty_heap(0 := [''min'' \<mapsto> Finite 20])))
     = empty_heap(0 := [''min'' \<mapsto> Finite 20])"
proof -
  have min: "fst (RangeConstruct_min range_10_50 (Finite 5) (empty_heap(0 := [''min'' \<mapsto> Finite 20])))
     = Inl (Error ''Minimum value must be greater than or equal to '' (Finite 10))"
    by (simp add: RangeConstruct_min_def rules_range_10_50)
  have max: "fst (RangeConstruct_max range_10_50 (Finite 60) (empty_heap(0 := [''min'' \<mapsto> Finite 20])))
     = Inl (Error ''Maximum value must be less than or equal to '' (Finite 50))"
    by (simp add: RangeConstruct_max_def rules_range_10_50 number_greater_def)
  from min max rule_violation_leaves_store_unchanged
    [of range_10_50 "Finite 5" "empty_heap(0 := [''min'' \<mapsto> Finite 20])" _ "Finite 60"]
  show ?thesis by blast
qed

section \<open>The even-odd construct\<close>

text \<open>
  C8. For every even-odd construct and every finite chain of \<open>.even()\<close> and \<open>.odd()\<close>
  calls, no call throws and the chain returns the builder; when the setter accumulates
  into one object and the chain is not empty, the property \<open>even\<close> of that object is
  afterwards \<open>true\<close> if the last call was \<open>.even()\<close> and \<open>false\<close> if it was
  \<open>.odd()\<close>.
\<close>

theorem parity_calls_never_fail_last_wins:
  "fst (parity_calls this cs h) = Inr this
   \<and> (setter this = accumulating_setter a \<and> cs \<noteq> [] \<longrightarrow>
        snd (parity_calls this cs h) a ''even'' = Some (last cs = Call_even))"
proof (cases cs)
  case Nil
  then show ?thesis by simp
next
  case (Cons c cs')
  then show ?thesis
    using parity_calls_returns_this [of this cs h] parity_calls_last [of this a c cs' h]
    by simp
qed

theorem parity_calls_never_fail_last_wins_witness:
  "fst (parity_calls parity_unruled [Call_even, Call_odd, Call_even, Call_odd] empty_heap)
     = Inr parity_unruled
   \<and> snd (parity_calls parity_unruled [Call_even, Call_odd, Call_even, Call_odd] empty_heap)
         0 ''even'' = Some False"
  using parity_calls_never_fail_last_wins
      [of parity_unruled "[Call_even, Call_odd, Call_even, Call_odd]" empty_heap 0]
  by (simp add: setter_examples)

section \<open>Boundaries and absent rules\<close>

text \<open>
  C9. The checks are not strict: \<open>.min(v)\<close> with \<open>v\<close> equal to the rule's \<open>min\<close>
  returns the builder after the setter was called with the assignment of \<open>min\<close>, and
  \<open>.max(w)\<close> with \<open>w\<close> equal to the rule's \<open>max\<close> likewise; with an accumulating
  setter the constraint is then \<open>v\<close>, respectively \<open>w\<close>.
\<close>

theorem rule_bound_is_inclusive:
  "(rules this ''min'' = Some v \<longrightarrow>
      RangeConstruct_min this v h = (Inr this, setter this (assign ''min'' v) h)
      \<and> (setter this = accumulating_setter a \<longrightarrow>
           snd (RangeConstruct_min this v h) a ''min'' = Some v))
   \<and> (rules this ''max'' = Some w \<longrightarrow>
      RangeConstruct_max this w h = (Inr this, setter this (assign ''max'' w) h)
      \<and> (setter this = accumulating_setter a \<longrightarrow>
           snd (RangeConstruct_max this w h) a ''max'' = Some w))"
proof -
  have min: "RangeConstruct_min this v h = (Inr this, setter this (assign ''min'' v) h)"
    if "rules this ''min'' = Some v"
    using that by (intro RangeConstruct_min_returns) (simp add: number_less_irrefl)
  have max: "RangeConstruct_max this w h = (Inr this, setter this (assign ''max'' w) h)"
    if "rules this ''max'' = Some w"
    using that
    by (intro RangeConstruct_max_returns) (simp add: number_greater_def number_less_irrefl)
  show ?thesis
    using min max by (simp add: accumulating_assign)
qed

theorem rule_bound_is_inclusive_witness:
  "RangeConstruct_min range_10_50 (Finite 10) empty_heap
     = (Inr range_10_50, empty_heap(0 := [''min'' \<mapsto> Finite 10]))
   \<and> RangeConstruct_max range_10_50 (Finite 50) empty_heap
     = (Inr range_10_50, empty_heap(0 := [''max'' \<mapsto> Finite 50]))
   \<and> snd (RangeConstruct_min range_10_50 (Finite 10) empty_heap) 0 ''min'' = Some (Finite 10)
   \<and> snd (RangeConstruct_max range_10_50 (Finite 50) empty_heap) 0 ''max'' = Some (Finite 50)"
  using rule_bound_is_inclusive [of range_10_50 "Finite 10" empty_heap 0 "Finite 50"]
  by (simp add: rules_range_10_50 setter_examples accumulating_assign empty_heap_apply)

text \<open>
  C10. A construct created without a \<open>rules\<close> argument has the empty rule object,
  and on it \<open>.min(a)\<close>, \<open>.max(b)\<close> and \<open>.between(a, b)\<close> return the builder for all
  arguments, after the calls of the setter.
\<close>

theorem construct_without_rules_never_throws:
  "rules (Construct_new s None :: RangeConstruct) = Map.empty
   \<and> RangeConstruct_min (Construct_new s None) a h
       = (Inr (Construct_new s None), s (assign ''min'' a) h)
   \<and> RangeConstruct_max (Construct_new s None) b h
       = (Inr (Construct_new s None), s (assign ''max'' b) h)
   \<and> RangeConstruct_between (Construct_new s None) a b h
       = (Inr (Construct_new s None), s (assign ''max'' b) (s (assign ''min'' a) h))"
  by (simp add: RangeConstruct_between_def RangeConstruct_min_def RangeConstruct_max_def
      rules_Construct_new_None setter_Construct_new)

end
